theory Spec2Isabelle
  imports Complex_Main "HOL-Library.Multiset" "HOL-Library.Sublist"
begin

section \<open>JavaScript values used by the handler\<close>

text \<open>
  The repository is one Express application, \<^verbatim>\<open>src/api.js\<close>.  Its third route,
  \<^verbatim>\<open>GET /v1/events\<close>, validates five query parameters, lists the objects of a
  storage bucket, projects each object to an event, filters the events and
  sorts them.  The model below follows that handler statement by statement.

  Modelling decisions:
  \<^item> A JavaScript string is a \<^typ>\<open>string\<close>.  The model is exact on ASCII text;
    case conversion leaves every character outside \<open>a..z\<close>, \<open>A..Z\<close> unchanged and
    \<open>length\<close> counts characters.
  \<^item> A JavaScript number is a \<open>jsnum\<close>: not-a-number, the two infinities, or a
    finite value.  A finite value is an exact real number, where the engine
    holds the nearest IEEE double; results differ only where that rounding
    moves a value across a bound it is compared with.
  \<^item> A query parameter is \<open>None\<close> when the request does not carry it and
    \<open>Some s\<close> when it is given once as \<open>name=s\<close>.
  \<^item> The functions \<^verbatim>\<open>parseISO\<close> (date-fns), \<^verbatim>\<open>distance\<close> (Turf) and the HTTP
    client \<^verbatim>\<open>got\<close> are libraries outside the repository and are parameters of
    the handler.
\<close>

datatype jsnum = NaN | NegInf | Fin real | PosInf

text \<open>The relational operators on numbers: every comparison with \<open>NaN\<close> is false.\<close>

fun num_lt :: "jsnum \<Rightarrow> jsnum \<Rightarrow> bool" where
  "num_lt NaN _ = False"
| "num_lt _ NaN = False"
| "num_lt PosInf _ = False"
| "num_lt _ NegInf = False"
| "num_lt NegInf _ = True"
| "num_lt _ PosInf = True"
| "num_lt (Fin a) (Fin b) = (a < b)"

definition num_eq :: "jsnum \<Rightarrow> jsnum \<Rightarrow> bool" where
  "num_eq a b = (a \<noteq> NaN \<and> b \<noteq> NaN \<and> a = b)"

definition num_le :: "jsnum \<Rightarrow> jsnum \<Rightarrow> bool" where
  "num_le a b = (num_lt a b \<or> num_eq a b)"

definition num_neg :: "jsnum \<Rightarrow> jsnum" where
  "num_neg a = (case a of NaN \<Rightarrow> NaN | NegInf \<Rightarrow> PosInf | Fin r \<Rightarrow> Fin (- r) | PosInf \<Rightarrow> NegInf)"

subsection \<open>String primitives\<close>

definition is_lower :: "char \<Rightarrow> bool" where
  "is_lower c = (c \<in> set ''abcdefghijklmnopqrstuvwxyz'')"

definition is_upper :: "char \<Rightarrow> bool" where
  "is_upper c = (c \<in> set ''ABCDEFGHIJKLMNOPQRSTUVWXYZ'')"

definition upper_char :: "char \<Rightarrow> char" where
  "upper_char c =
     (case map_of (zip ''abcdefghijklmnopqrstuvwxyz'' ''ABCDEFGHIJKLMNOPQRSTUVWXYZ'') c of
        None \<Rightarrow> c
      | Some u \<Rightarrow> u)"

definition lower_char :: "char \<Rightarrow> char" where
  "lower_char c =
     (case map_of (zip ''ABCDEFGHIJKLMNOPQRSTUVWXYZ'' ''abcdefghijklmnopqrstuvwxyz'') c of
        None \<Rightarrow> c
      | Some l \<Rightarrow> l)"

definition toUpperCase :: "string \<Rightarrow> string" where
  "toUpperCase s = map upper_char s"

definition toLowerCase :: "string \<Rightarrow> string" where
  "toLowerCase s = map lower_char s"

text \<open>\<^verbatim>\<open>s.split(",")\<close>: the pieces between the commas; always at least one piece.\<close>

fun split_comma :: "string \<Rightarrow> string list" where
  "split_comma [] = [[]]"
| "split_comma (c # cs) =
     (if c = CHR '','' then [] # split_comma cs
      else (case split_comma cs of
              [] \<Rightarrow> [[c]]
            | t # ts \<Rightarrow> (c # t) # ts))"

text \<open>\<^verbatim>\<open>/[a-zA-Z]/.test(s)\<close>: some character of \<open>s\<close> is an ASCII letter.\<close>

definition has_letter :: "string \<Rightarrow> bool" where
  "has_letter s = list_ex (\<lambda>c. is_lower c \<or> is_upper c) s"

subsection \<open>\<^verbatim>\<open>Number(string)\<close>\<close>

text \<open>
  The grammar \<open>StringNumericLiteral\<close> of ECMAScript: optional white space around
  either nothing (the value 0), a signed decimal literal with optional fraction
  and exponent, \<open>Infinity\<close>, or an unsigned binary, octal or hexadecimal integer.
  Anything else is \<open>NaN\<close>.
\<close>

definition is_ws :: "char \<Rightarrow> bool" where
  "is_ws c = (c \<in> set [CHR 0x09, CHR 0x0A, CHR 0x0B, CHR 0x0C, CHR 0x0D, CHR '' ''])"

definition trim :: "string \<Rightarrow> string" where
  "trim s = rev (dropWhile is_ws (rev (dropWhile is_ws s)))"

definition is_digit :: "char \<Rightarrow> bool" where
  "is_digit c = (c \<in> set ''0123456789'')"

definition digit_of :: "char \<Rightarrow> nat" where
  "digit_of c =
     (if is_digit c then of_char c - 48
      else if c \<in> set ''abcdef'' then of_char c - 87
      else if c \<in> set ''ABCDEF'' then of_char c - 55
      else 0)"

definition is_hex_digit :: "char \<Rightarrow> bool" where
  "is_hex_digit c = (is_digit c \<or> c \<in> set ''abcdef'' \<or> c \<in> set ''ABCDEF'')"

definition digits_value :: "nat \<Rightarrow> string \<Rightarrow> nat" where
  "digits_value base ds = foldl (\<lambda>acc c. acc * base + digit_of c) 0 ds"

text \<open>The exponent part: empty, or \<open>e\<close>/\<open>E\<close>, an optional sign and at least one digit.\<close>

definition exponent_part :: "string \<Rightarrow> int option" where
  "exponent_part r =
     (case r of
        [] \<Rightarrow> Some 0
      | c # t \<Rightarrow>
          if c = CHR ''e'' \<or> c = CHR ''E'' then
            (case t of
               [] \<Rightarrow> None
             | d # u \<Rightarrow>
                 if d = CHR ''+'' then
                   (if u \<noteq> [] \<and> list_all is_digit u then Some (int (digits_value 10 u)) else None)
                 else if d = CHR ''-'' then
                   (if u \<noteq> [] \<and> list_all is_digit u then Some (- int (digits_value 10 u)) else None)
                 else
                   (if list_all is_digit t then Some (int (digits_value 10 t)) else None))
          else None)"

definition scale10 :: "real \<Rightarrow> int \<Rightarrow> real" where
  "scale10 m e = (if 0 \<le> e then m * 10 ^ nat e else m / 10 ^ nat (- e))"

definition unsigned_decimal :: "string \<Rightarrow> jsnum" where
  "unsigned_decimal s =
     (if s = ''Infinity'' then PosInf
      else
        let ip = takeWhile is_digit s;
            r1 = dropWhile is_digit s;
            fp = (case r1 of [] \<Rightarrow> [] | c # t \<Rightarrow> if c = CHR ''.'' then takeWhile is_digit t else []);
            r2 = (case r1 of [] \<Rightarrow> [] | c # t \<Rightarrow> if c = CHR ''.'' then dropWhile is_digit t else r1)
        in if ip = [] \<and> fp = [] then NaN
           else (case exponent_part r2 of
                   None \<Rightarrow> NaN
                 | Some e \<Rightarrow>
                     Fin (scale10 (real (digits_value 10 ip)
                                   + real (digits_value 10 fp) / 10 ^ length fp) e)))"

definition non_decimal :: "string \<Rightarrow> jsnum option" where
  "non_decimal s =
     (case s of
        z # p # ds \<Rightarrow>
          if z = CHR ''0'' \<and> (p = CHR ''x'' \<or> p = CHR ''X'') then
            Some (if ds \<noteq> [] \<and> list_all is_hex_digit ds then Fin (real (digits_value 16 ds)) else NaN)
          else if z = CHR ''0'' \<and> (p = CHR ''o'' \<or> p = CHR ''O'') then
            Some (if ds \<noteq> [] \<and> list_all (\<lambda>c. c \<in> set ''01234567'') ds
                  then Fin (real (digits_value 8 ds)) else NaN)
          else if z = CHR ''0'' \<and> (p = CHR ''b'' \<or> p = CHR ''B'') then
            Some (if ds \<noteq> [] \<and> list_all (\<lambda>c. c \<in> set ''01'') ds
                  then Fin (real (digits_value 2 ds)) else NaN)
          else None
      | _ \<Rightarrow> None)"

definition Number :: "string \<Rightarrow> jsnum" where
  "Number s =
     (let t = trim s in
      case t of
        [] \<Rightarrow> Fin 0
      | c # u \<Rightarrow>
          (case non_decimal t of
             Some n \<Rightarrow> n
           | None \<Rightarrow>
               if c = CHR ''+'' then unsigned_decimal u
               else if c = CHR ''-'' then num_neg (unsigned_decimal u)
               else unsigned_decimal t))"

subsection \<open>Values, coercion and comparison\<close>

datatype jsval = Undefined | Str string | Numv jsnum

text \<open>\<open>ToNumber\<close>: \<^verbatim>\<open>undefined\<close> becomes \<open>NaN\<close>, a string is read by \<open>Number\<close>.\<close>

fun to_number :: "jsval \<Rightarrow> jsnum" where
  "to_number Undefined = NaN"
| "to_number (Str s) = Number s"
| "to_number (Numv n) = n"

definition isNaN :: "jsval \<Rightarrow> bool" where
  "isNaN v = (to_number v = NaN)"

text \<open>Array indexing: reading past the end gives \<^verbatim>\<open>undefined\<close>.\<close>

definition elem_at :: "jsval list \<Rightarrow> nat \<Rightarrow> jsval" where
  "elem_at xs i = (if i < length xs then xs ! i else Undefined)"

text \<open>
  The operator \<^verbatim>\<open><\<close>: two strings are compared by code units, every other pair of
  operands is converted to numbers first.
\<close>

fun str_lt :: "string \<Rightarrow> string \<Rightarrow> bool" where
  "str_lt [] [] = False"
| "str_lt [] (_ # _) = True"
| "str_lt (_ # _) [] = False"
| "str_lt (a # as) (b # bs) =
     (if a = b then str_lt as bs else (of_char a :: nat) < of_char b)"

fun js_lt :: "jsval \<Rightarrow> jsval \<Rightarrow> bool" where
  "js_lt (Str a) (Str b) = str_lt a b"
| "js_lt a b = num_lt (to_number a) (to_number b)"

definition js_gt :: "jsval \<Rightarrow> jsval \<Rightarrow> bool" where
  "js_gt a b = js_lt b a"

definition js_le :: "jsval \<Rightarrow> jsval \<Rightarrow> bool" where
  "js_le a b = (case (a, b) of
                  (Str x, Str y) \<Rightarrow> \<not> str_lt y x
                | _ \<Rightarrow> num_le (to_number a) (to_number b))"

text \<open>The truth value of a query parameter: present and not the empty string.\<close>

definition truthy :: "string option \<Rightarrow> bool" where
  "truthy p = (case p of None \<Rightarrow> False | Some s \<Rightarrow> s \<noteq> [])"

section \<open>Validation of the query\<close>

text \<open>\<^verbatim>\<open>req.query\<close>, restricted to the five parameters the handler reads.\<close>

record query =
  q_org :: "string option"
  q_around :: "string option"
  q_country :: "string option"
  q_updated_at :: "string option"
  q_updated_after :: "string option"

record verror =
  code :: string
  message :: string

definition org_unique_error :: verror where
  "org_unique_error = \<lparr>code = ''wrong_org_param'', message = ''Org must be a unique value''\<rparr>"

definition org_lowercase_error :: verror where
  "org_lowercase_error = \<lparr>code = ''wrong_org_param'', message = ''Org must be in lowercase''\<rparr>"

definition around_parse_error :: verror where
  "around_parse_error =
     \<lparr>code = ''wrong_around_param'',
      message = ''Around param must be a list of 3 numbers, separated by commas''\<rparr>"

definition around_longitude_error :: verror where
  "around_longitude_error =
     \<lparr>code = ''wrong_around_param'',
      message = ''Longitude must be between -180 (inclusive) and 180 (exclusive)''\<rparr>"

definition around_latitude_error :: verror where
  "around_latitude_error =
     \<lparr>code = ''wrong_around_param'', message = ''Latitude must be between -90 and 90''\<rparr>"

definition around_distance_error :: verror where
  "around_distance_error =
     \<lparr>code = ''wrong_around_param'', message = ''Distance must be greater than 0''\<rparr>"

definition country_uppercase_error :: "string \<Rightarrow> verror" where
  "country_uppercase_error c =
     \<lparr>code = ''wrong_country_param/'' @ c,
      message = ''ISO 3166-1 alpha-2 country code must be in uppercase''\<rparr>"

definition country_letters_error :: "string \<Rightarrow> verror" where
  "country_letters_error c =
     \<lparr>code = ''wrong_country_param/'' @ c,
      message = ''ISO 3166-1 alpha-2 country code must be only letters''\<rparr>"

definition country_length_error :: "string \<Rightarrow> verror" where
  "country_length_error c =
     \<lparr>code = ''wrong_country_param/'' @ c,
      message = ''ISO 3166-1 alpha-2 country code must be 2-letter long''\<rparr>"

definition updated_at_number_error :: verror where
  "updated_at_number_error =
     \<lparr>code = ''wrong_updated_at_param'', message = ''Updated_at must be a number''\<rparr>"

definition updated_at_negative_error :: verror where
  "updated_at_negative_error =
     \<lparr>code = ''wrong_updated_at_param'', message = ''Updated_at must be greater than 0''\<rparr>"

text \<open>
  Each \<^verbatim>\<open>if (cond) errors.push(e)\<close> contributes \<open>[e]\<close> or nothing.  The four blocks
  of the handler follow: \<^verbatim>\<open>org\<close> (lines 61 to 72), \<^verbatim>\<open>around\<close> (75 to 104),
  \<^verbatim>\<open>country\<close> (107 to 126) and \<^verbatim>\<open>updated_at\<close> (129 to 141).
\<close>

definition push_if :: "bool \<Rightarrow> verror \<Rightarrow> verror list" where
  "push_if b e = (if b then [e] else [])"

definition org_errors :: "query \<Rightarrow> verror list" where
  "org_errors q =
     (if truthy (q_org q) then
        (let v = the (q_org q) in
         push_if (CHR '','' \<in> set v) org_unique_error
         @ push_if (v \<noteq> toLowerCase v) org_lowercase_error)
      else [])"

text \<open>\<^verbatim>\<open>around.split(",").map((i) => Number(i))\<close>\<close>

definition around_numbers :: "string \<Rightarrow> jsval list" where
  "around_numbers s = map (\<lambda>i. Numv (Number i)) (split_comma s)"

definition around_checks :: "jsval list \<Rightarrow> verror list" where
  "around_checks a =
     push_if (isNaN (elem_at a 0) \<or> isNaN (elem_at a 1) \<or> isNaN (elem_at a 2) \<or> length a \<noteq> 3)
        around_parse_error
     @ push_if (js_le (elem_at a 0) (Numv (Fin (- 180))) \<or> js_gt (elem_at a 0) (Numv (Fin 180)))
        around_longitude_error
     @ push_if (js_lt (elem_at a 1) (Numv (Fin (- 90))) \<or> js_gt (elem_at a 1) (Numv (Fin 90)))
        around_latitude_error
     @ push_if (js_lt (elem_at a 2) (Numv (Fin 0))) around_distance_error"

definition around_errors :: "query \<Rightarrow> verror list" where
  "around_errors q =
     (if truthy (q_around q) then around_checks (around_numbers (the (q_around q))) else [])"

definition country_code_errors :: "string \<Rightarrow> verror list" where
  "country_code_errors c =
     push_if (c \<noteq> toUpperCase c) (country_uppercase_error c)
     @ push_if (\<not> has_letter c) (country_letters_error c)
     @ push_if (length c \<noteq> 2) (country_length_error c)"

definition country_errors :: "query \<Rightarrow> verror list" where
  "country_errors q =
     (if truthy (q_country q) then concat (map country_code_errors (split_comma (the (q_country q))))
      else [])"

definition updated_at_errors :: "query \<Rightarrow> verror list" where
  "updated_at_errors q =
     (if truthy (q_updated_at q) then
        (let u = Numv (Number (the (q_updated_at q))) in
         push_if (isNaN u) updated_at_number_error
         @ push_if (js_lt u (Numv (Fin 0))) updated_at_negative_error)
      else [])"

text \<open>The array \<^verbatim>\<open>errors\<close> when the handler reaches line 144.\<close>

definition validate :: "query \<Rightarrow> verror list" where
  "validate q = org_errors q @ around_errors q @ country_errors q @ updated_at_errors q"

section \<open>Projection of the listed objects\<close>

text \<open>
  An object of the bucket listing.  \<^verbatim>\<open>metadata\<close> is the object's custom metadata, a
  dictionary of strings that the storage service leaves out when the object has
  none; reading a key of a missing dictionary throws.
\<close>

record rawobject =
  name :: string
  metadata :: "(string \<rightharpoonup> string) option"
  timeCreated :: string
  updated :: string

record event =
  title :: "string option"
  endpoint :: string
  created_at :: jsnum
  updated_at :: jsnum
  country :: "string option"
  longitude :: jsnum
  latitude :: jsnum
  distance :: "jsnum option"

text \<open>
  A \<^verbatim>\<open>Date\<close> object: invalid, or a time value, the number of milliseconds since
  1970-01-01T00:00:00Z.  \<^verbatim>\<open>getTime\<close> of date-fns returns that time value.
\<close>

datatype jsdate = InvalidDate | Date int

fun getTime :: "jsdate \<Rightarrow> jsnum" where
  "getTime InvalidDate = NaN"
| "getTime (Date t) = Fin (real_of_int t)"

definition MALROT_URL :: string where
  "MALROT_URL = ''https://api.malrot.org''"

definition BASE_URL :: string where
  "BASE_URL = ''https://storage.googleapis.com/storage/v1/b/malrot/o''"

definition opt_str :: "string option \<Rightarrow> jsval" where
  "opt_str v = (case v of None \<Rightarrow> Undefined | Some s \<Rightarrow> Str s)"

definition opt_num :: "jsnum option \<Rightarrow> jsval" where
  "opt_num v = (case v of None \<Rightarrow> Undefined | Some n \<Rightarrow> Numv n)"

text \<open>The object literal pushed for one listed object (lines 160 to 168).\<close>

definition project :: "(string \<Rightarrow> jsdate) \<Rightarrow> rawobject \<Rightarrow> event option" where
  "project parseISO obj =
     (case metadata obj of
        None \<Rightarrow> None
      | Some m \<Rightarrow>
          Some \<lparr>title = m ''title'',
                endpoint = MALROT_URL @ ''/v1/events/'' @ name obj,
                created_at = getTime (parseISO (timeCreated obj)),
                updated_at = getTime (parseISO (updated obj)),
                country = m ''country'',
                longitude = to_number (opt_str (m ''longitude'')),
                latitude = to_number (opt_str (m ''latitude'')),
                distance = None\<rparr>)"

text \<open>The loop over \<^verbatim>\<open>events\<close>: the first object that throws aborts the whole loop.\<close>

fun project_all :: "(string \<Rightarrow> jsdate) \<Rightarrow> rawobject list \<Rightarrow> event list option" where
  "project_all parseISO [] = Some []"
| "project_all parseISO (obj # objs) =
     (case project parseISO obj of
        None \<Rightarrow> None
      | Some e \<Rightarrow>
          (case project_all parseISO objs of
             None \<Rightarrow> None
           | Some es \<Rightarrow> Some (e # es)))"

section \<open>Filters\<close>

text \<open>
  The country filter (lines 173 to 176) and the recency filter (179 to 181).
  In the latter, \<^verbatim>\<open>event.updated_at\<close> is a number and the parameter a string.
\<close>

definition country_filter :: "query \<Rightarrow> event list \<Rightarrow> event list" where
  "country_filter q data =
     (if truthy (q_country q) then
        (let codes = split_comma (the (q_country q)) in
         filter (\<lambda>e. case country e of None \<Rightarrow> False | Some c \<Rightarrow> c \<in> set codes) data)
      else data)"

definition updated_after_filter :: "query \<Rightarrow> event list \<Rightarrow> event list" where
  "updated_after_filter q data =
     (if truthy (q_updated_after q) then
        filter (\<lambda>e. js_gt (Numv (updated_at e)) (Str (the (q_updated_after q)))) data
      else data)"

text \<open>
  The proximity filter (lines 184 to 197) splits the parameter again and keeps
  the pieces as strings.  \<open>distance_km\<close> is Turf's \<^verbatim>\<open>distance(from, to)\<close> with its
  default unit, kilometers; the call is taken to return a number.  The
  comparison with \<^verbatim>\<open>around[2]\<close>, a string, converts it to a number.
\<close>

definition set_distance :: "(jsval list \<Rightarrow> jsval list \<Rightarrow> jsnum) \<Rightarrow> jsval list \<Rightarrow> event \<Rightarrow> event" where
  "set_distance distance_km a e =
     e\<lparr>distance := Some (distance_km [elem_at a 0, elem_at a 1] [Numv (longitude e), Numv (latitude e)])\<rparr>"

definition around_filter ::
  "(jsval list \<Rightarrow> jsval list \<Rightarrow> jsnum) \<Rightarrow> query \<Rightarrow> event list \<Rightarrow> event list" where
  "around_filter distance_km q data =
     (if truthy (q_around q) then
        (let a = map Str (split_comma (the (q_around q))) in
         filter (\<lambda>e. js_lt (opt_num (distance e)) (elem_at a 2)) (map (set_distance distance_km a) data))
      else data)"

section \<open>Ranking\<close>

text \<open>
  \<^verbatim>\<open>_.sortBy(data, ["distance"])\<close> of lodash sorts by the criterion and then by the
  original index.  \<open>compareAscending\<close> is lodash's comparison of two criteria,
  here on the values a \<^verbatim>\<open>distance\<close> can have: a number or \<^verbatim>\<open>undefined\<close>.
\<close>

definition strict_ne :: "jsnum option \<Rightarrow> jsnum option \<Rightarrow> bool" where
  "strict_ne v w =
     (case (v, w) of
        (None, None) \<Rightarrow> False
      | (Some a, Some b) \<Rightarrow> \<not> num_eq a b
      | _ \<Rightarrow> True)"

definition compareAscending :: "jsnum option \<Rightarrow> jsnum option \<Rightarrow> int" where
  "compareAscending v w =
     (if strict_ne v w then
        (let valIsDefined = (v \<noteq> None);
             valIsReflexive = (v \<noteq> Some NaN);
             othIsDefined = (w \<noteq> None);
             othIsReflexive = (w \<noteq> Some NaN)
         in if js_gt (opt_num v) (opt_num w) \<or> (\<not> valIsDefined \<and> othIsReflexive) \<or> \<not> valIsReflexive
            then 1
            else if js_lt (opt_num v) (opt_num w) \<or> (\<not> othIsDefined \<and> valIsReflexive)
                    \<or> \<not> othIsReflexive
            then - 1
            else 0)
      else 0)"

text \<open>
  The sort itself is an insertion sort from the right: an element goes before
  the first element it does not compare greater than, so that elements with
  equal criteria keep their original order, as the index tie-break of lodash
  makes them.
\<close>

fun insert_by_distance :: "event \<Rightarrow> event list \<Rightarrow> event list" where
  "insert_by_distance x [] = [x]"
| "insert_by_distance x (y # ys) =
     (if compareAscending (distance x) (distance y) \<le> 0 then x # y # ys
      else y # insert_by_distance x ys)"

definition sortBy_distance :: "event list \<Rightarrow> event list" where
  "sortBy_distance data = foldr insert_by_distance data []"

section \<open>The handler of \<^verbatim>\<open>GET /v1/events\<close>\<close>

record bucket_listing =
  items :: "rawobject list option"

datatype response = Status400 "verror list" | Status200 "event list" | Status500

text \<open>
  \<open>got\<close> is the request to the storage service with the JSON body decoded:
  \<open>None\<close> when the request or the decoding throws.
\<close>

definition listing_url :: "query \<Rightarrow> string" where
  "listing_url q =
     (if truthy (q_org q) then BASE_URL @ ''?prefix='' @ the (q_org q) else BASE_URL)"

text \<open>Lines 154 to 170: \<^verbatim>\<open>events.items\<close> projected, or nothing when there are no items.\<close>

definition projected :: "(string \<Rightarrow> jsdate) \<Rightarrow> bucket_listing \<Rightarrow> event list option" where
  "projected parseISO events =
     (case items events of
        None \<Rightarrow> Some []
      | Some objs \<Rightarrow> project_all parseISO objs)"

definition pipeline ::
  "(jsval list \<Rightarrow> jsval list \<Rightarrow> jsnum) \<Rightarrow> query \<Rightarrow> event list \<Rightarrow> event list" where
  "pipeline distance_km q data =
     sortBy_distance (around_filter distance_km q (updated_after_filter q (country_filter q data)))"

definition events_handler ::
  "(string \<Rightarrow> jsdate) \<Rightarrow> (jsval list \<Rightarrow> jsval list \<Rightarrow> jsnum) \<Rightarrow> (string \<Rightarrow> bucket_listing option)
   \<Rightarrow> query \<Rightarrow> response" where
  "events_handler parseISO distance_km got q =
     (let errors = validate q in
      if length errors > 0 then Status400 errors
      else
        (case got (listing_url q) of
           None \<Rightarrow> Status500
         | Some events \<Rightarrow>
             (case projected parseISO events of
                None \<Rightarrow> Status500
              | Some data \<Rightarrow> Status200 (pipeline distance_km q data))))"

section \<open>Instances of the library functions\<close>

text \<open>
  The handler is run on concrete requests with the two instances below.

  \<open>parseISO_utc\<close> reads the timestamps the storage service writes, RFC 3339 in
  UTC with or without milliseconds (\<^verbatim>\<open>2021-06-01T12:00:00.000Z\<close>), to their time
  value, and is invalid elsewhere.
\<close>

definition days_from_civil :: "int \<Rightarrow> int \<Rightarrow> int \<Rightarrow> int" where
  "days_from_civil y m d =
     (let y1 = (if m \<le> 2 then y - 1 else y);
          era = y1 div 400;
          yoe = y1 - era * 400;
          mp = (if 2 < m then m - 3 else m + 9);
          doy = (153 * mp + 2) div 5 + d - 1;
          doe = yoe * 365 + yoe div 4 - yoe div 100 + doy
      in era * 146097 + doe - 719468)"

definition days_in_month :: "int \<Rightarrow> int \<Rightarrow> int" where
  "days_in_month y m =
     (if m = 2 then (if y mod 4 = 0 \<and> (y mod 100 \<noteq> 0 \<or> y mod 400 = 0) then 29 else 28)
      else if m = 4 \<or> m = 6 \<or> m = 9 \<or> m = 11 then 30
      else 31)"

definition parseISO_utc :: "string \<Rightarrow> jsdate" where
  "parseISO_utc s =
     (let field = (\<lambda>i n. take n (drop i s));
          num = (\<lambda>i n. int (digits_value 10 (field i n)));
          y = num 0 4; mo = num 5 2; d = num 8 2;
          h = num 11 2; mi = num 14 2; se = num 17 2;
          rest = drop 19 s;
          ms = (if rest = ''Z'' then Some 0
                else if length rest = 5 \<and> rest ! 0 = CHR ''.'' \<and> rest ! 4 = CHR ''Z''
                        \<and> list_all is_digit (field 20 3)
                then Some (num 20 3)
                else None)
      in if 20 \<le> length s
            \<and> list_all is_digit (field 0 4 @ field 5 2 @ field 8 2 @ field 11 2 @ field 14 2 @ field 17 2)
            \<and> s ! 4 = CHR ''-'' \<and> s ! 7 = CHR ''-'' \<and> s ! 10 = CHR ''T''
            \<and> s ! 13 = CHR '':'' \<and> s ! 16 = CHR '':''
            \<and> ms \<noteq> None
            \<and> 1 \<le> mo \<and> mo \<le> 12 \<and> 1 \<le> d \<and> d \<le> days_in_month y mo
            \<and> h < 24 \<and> mi < 60 \<and> se < 60
         then Date ((((days_from_civil y mo d * 24 + h) * 60 + mi) * 60 + se) * 1000 + the ms)
         else InvalidDate)"

text \<open>
  \<open>great_circle_km\<close> is the haversine formula of Turf's \<^verbatim>\<open>distance\<close> on exact reals:
  the coordinates are coerced to numbers, as the arithmetic of the library does,
  and a coordinate that is not a finite number gives \<open>NaN\<close>.
\<close>

definition js_rem :: "real \<Rightarrow> real \<Rightarrow> real" where
  "js_rem x m = x - m * real_of_int (if 0 \<le> x / m then \<lfloor>x / m\<rfloor> else \<lceil>x / m\<rceil>)"

definition degreesToRadians :: "real \<Rightarrow> real" where
  "degreesToRadians degrees = js_rem degrees 360 * pi / 180"

definition atan2 :: "real \<Rightarrow> real \<Rightarrow> real" where
  "atan2 y x =
     (if 0 < x then arctan (y / x)
      else if x < 0 \<and> 0 \<le> y then arctan (y / x) + pi
      else if x < 0 then arctan (y / x) - pi
      else if 0 < y then pi / 2
      else if y < 0 then - pi / 2
      else 0)"

definition haversine_km :: "real \<Rightarrow> real \<Rightarrow> real \<Rightarrow> real \<Rightarrow> real" where
  "haversine_km lon1 lat1 lon2 lat2 =
     (let dLat = degreesToRadians (lat2 - lat1);
          dLon = degreesToRadians (lon2 - lon1);
          a = (sin (dLat / 2)) ^ 2
              + (sin (dLon / 2)) ^ 2 * cos (degreesToRadians lat1) * cos (degreesToRadians lat2)
      in 2 * atan2 (sqrt a) (sqrt (1 - a)) * (63710088 / 10000))"

definition great_circle_km :: "jsval list \<Rightarrow> jsval list \<Rightarrow> jsnum" where
  "great_circle_km from to =
     (case (to_number (elem_at from 0), to_number (elem_at from 1),
            to_number (elem_at to 0), to_number (elem_at to 1)) of
        (Fin lon1, Fin lat1, Fin lon2, Fin lat2) \<Rightarrow> Fin (haversine_km lon1 lat1 lon2 lat2)
      | _ \<Rightarrow> NaN)"

section \<open>The specification's reading of a timestamp\<close>

text \<open>
  The specification describes \<^verbatim>\<open>created_at\<close> and \<^verbatim>\<open>updated_at\<close> as epoch seconds.
  \<open>spec_epoch_seconds\<close> follows those words: the whole seconds since the epoch of
  a parsed timestamp.
\<close>

definition spec_epoch_seconds :: "jsdate \<Rightarrow> jsnum" where
  "spec_epoch_seconds d =
     (case d of
        InvalidDate \<Rightarrow> NaN
      | Date t \<Rightarrow> Fin (real_of_int (t div 1000)))"

text \<open>
  The specification's invariant of \<^verbatim>\<open>around\<close>: three numbers, the longitude in
  \<open>(-180, 180]\<close>, the latitude in \<open>[-90, 90]\<close> and the radius greater than 0.
  \<open>spec_around_valid\<close> follows those words.
\<close>

definition spec_around_valid :: "string \<Rightarrow> bool" where
  "spec_around_valid s =
     (case map Number (split_comma s) of
        [lon, lat, rad] \<Rightarrow>
          lon \<noteq> NaN \<and> lat \<noteq> NaN \<and> rad \<noteq> NaN
          \<and> num_lt (Fin (- 180)) lon \<and> num_le lon (Fin 180)
          \<and> num_le (Fin (- 90)) lat \<and> num_le lat (Fin 90)
          \<and> num_lt (Fin 0) rad
      | _ \<Rightarrow> False)"

section \<open>Sample requests and objects\<close>

definition no_params :: query where
  "no_params =
     \<lparr>q_org = None, q_around = None, q_country = None, q_updated_at = None,
      q_updated_after = None\<rparr>"

definition fr_1_xyz :: query where
  "fr_1_xyz = no_params\<lparr>q_country := Some ''FR,1,xyz''\<rparr>"

definition around_0_0_0 :: query where
  "around_0_0_0 = no_params\<lparr>q_around := Some ''0,0,0''\<rparr>"

definition around_0_0_0_country_fr :: query where
  "around_0_0_0_country_fr = no_params\<lparr>q_around := Some ''0,0,0'', q_country := Some ''fr''\<rparr>"

definition around_200_abc :: query where
  "around_200_abc = no_params\<lparr>q_around := Some ''200,abc,-1''\<rparr>"

definition after_1000 :: query where
  "after_1000 = no_params\<lparr>q_updated_after := Some ''1000''\<rparr>"

definition after_abc :: query where
  "after_abc = no_params\<lparr>q_updated_after := Some ''abc''\<rparr>"

definition country_fr_de :: query where
  "country_fr_de = no_params\<lparr>q_country := Some ''FR,DE''\<rparr>"

definition near_louvre :: query where
  "near_louvre = no_params\<lparr>q_around := Some ''2.3522,48.8566,5'', q_country := Some ''FR''\<rparr>"

definition louvre :: rawobject where
  "louvre =
     \<lparr>name = ''louvre/expo.json'',
      metadata = Some (map_of [(''title'', ''Expo''), (''country'', ''FR''),
                               (''longitude'', ''2.3522''), (''latitude'', ''48.8566'')]),
      timeCreated = ''2021-01-01T00:00:00.000Z'',
      updated = ''2021-06-01T12:00:00.000Z''\<rparr>"

definition pergamon :: rawobject where
  "pergamon =
     \<lparr>name = ''pergamon/altar.json'',
      metadata = Some (map_of [(''title'', ''Altar''), (''country'', ''DE''),
                               (''longitude'', ''13.3967''), (''latitude'', ''52.5212'')]),
      timeCreated = ''2020-02-29T12:00:00.123Z'',
      updated = ''2020-03-01T00:00:00Z''\<rparr>"

definition louvre_event :: event where
  "louvre_event =
     \<lparr>title = Some ''Expo'',
      endpoint = ''https://api.malrot.org/v1/events/louvre/expo.json'',
      created_at = Fin 1609459200000,
      updated_at = Fin 1622548800000,
      country = Some ''FR'',
      longitude = Fin (23522 / 10000),
      latitude = Fin (488566 / 10000),
      distance = None\<rparr>"

definition pergamon_event :: event where
  "pergamon_event =
     \<lparr>title = Some ''Altar'',
      endpoint = ''https://api.malrot.org/v1/events/pergamon/altar.json'',
      created_at = Fin 1582977600123,
      updated_at = Fin 1583020800000,
      country = Some ''DE'',
      longitude = Fin (133967 / 10000),
      latitude = Fin (525212 / 10000),
      distance = None\<rparr>"

definition sample_got :: "string \<Rightarrow> bucket_listing option" where
  "sample_got url = (if url = BASE_URL then Some \<lparr>items = Some [louvre, pergamon]\<rparr> else None)"

text \<open>Three events that differ in \<^verbatim>\<open>updated_at\<close> only.\<close>

definition updated_ms :: "int \<Rightarrow> event" where
  "updated_ms t = louvre_event\<lparr>updated_at := Fin (real_of_int t)\<rparr>"

section \<open>Evaluation rules\<close>

lemmas number_eval =
  Number_def trim_def is_ws_def non_decimal_def unsigned_decimal_def is_digit_def
  is_hex_digit_def exponent_part_def digits_value_def digit_of_def scale10_def num_neg_def

lemmas validate_eval =
  validate_def org_errors_def around_errors_def country_errors_def updated_at_errors_def
  truthy_def push_if_def around_checks_def around_numbers_def country_code_errors_def
  toUpperCase_def toLowerCase_def upper_char_def lower_char_def has_letter_def is_lower_def
  is_upper_def isNaN_def elem_at_def js_le_def js_gt_def num_le_def num_eq_def

lemmas date_eval =
  parseISO_utc_def is_digit_def digits_value_def digit_of_def days_in_month_def
  days_from_civil_def

lemma project_louvre: "project parseISO_utc louvre = Some louvre_event"
  by (simp add: project_def louvre_def louvre_event_def MALROT_URL_def opt_str_def
      date_eval number_eval)

lemma project_pergamon: "project parseISO_utc pergamon = Some pergamon_event"
  by (simp add: project_def pergamon_def pergamon_event_def MALROT_URL_def opt_str_def
      date_eval number_eval)

lemma sample_listing:
  "sample_got (listing_url no_params) = Some \<lparr>items = Some [louvre, pergamon]\<rparr>"
  "projected parseISO_utc \<lparr>items = Some [louvre, pergamon]\<rparr> = Some [louvre_event, pergamon_event]"
  by (simp_all add: sample_got_def listing_url_def no_params_def truthy_def projected_def
      project_louvre project_pergamon)

lemmas pipeline_eval =
  pipeline_def country_filter_def updated_after_filter_def around_filter_def set_distance_def
  sortBy_distance_def compareAscending_def strict_ne_def opt_num_def truthy_def elem_at_def
  js_gt_def num_eq_def

lemma no_params_fields:
  "q_org no_params = None" "q_around no_params = None" "q_country no_params = None"
  "q_updated_at no_params = None" "q_updated_after no_params = None"
  by (simp_all add: no_params_def)

lemma near_louvre_fields:
  "q_org near_louvre = None" "q_around near_louvre = Some ''2.3522,48.8566,5''"
  "q_country near_louvre = Some ''FR''" "q_updated_at near_louvre = None"
  "q_updated_after near_louvre = None"
  by (simp_all add: near_louvre_def no_params_def)

lemma country_fr_de_fields:
  "q_org country_fr_de = None" "q_around country_fr_de = None"
  "q_country country_fr_de = Some ''FR,DE''" "q_updated_at country_fr_de = None"
  "q_updated_after country_fr_de = None"
  by (simp_all add: country_fr_de_def no_params_def)

lemma louvre_times:
  "parseISO_utc (timeCreated louvre) = Date 1609459200000"
  "parseISO_utc (updated louvre) = Date 1622548800000"
  by (simp_all add: louvre_def date_eval)

lemma sample_event_fields:
  "country louvre_event = Some ''FR''" "country pergamon_event = Some ''DE''"
  "distance louvre_event = None" "distance pergamon_event = None"
  by (simp_all add: louvre_event_def pergamon_event_def)

lemma listing_url_no_org: "q_org q = None \<Longrightarrow> listing_url q = BASE_URL"
  by (simp add: listing_url_def truthy_def)

lemma sample_got_no_org:
  "q_org q = None \<Longrightarrow> sample_got (listing_url q) = Some \<lparr>items = Some [louvre, pergamon]\<rparr>"
  by (simp add: listing_url_no_org sample_got_def)

text \<open>The origin of \<open>near_louvre\<close> is the position of the first sample event.\<close>

lemma great_circle_same_point:
  "great_circle_km [Str ''2.3522'', Str ''48.8566'']
     [Numv (longitude louvre_event), Numv (latitude louvre_event)] = Fin 0"
  by (simp add: louvre_event_def great_circle_km_def elem_at_def number_eval haversine_km_def
      degreesToRadians_def js_rem_def atan2_def)

section \<open>The handler, case by case\<close>

lemma handler_cases:
  "events_handler parseISO distance_km got q =
     (if validate q \<noteq> [] then Status400 (validate q)
      else case got (listing_url q) of
             None \<Rightarrow> Status500
           | Some l \<Rightarrow>
               (case projected parseISO l of
                  None \<Rightarrow> Status500
                | Some data \<Rightarrow> Status200 (pipeline distance_km q data)))"
  by (simp add: events_handler_def Let_def)

lemma handler_200:
  assumes "events_handler parseISO distance_km got q = Status200 body"
  shows "\<exists>l data. validate q = [] \<and> got (listing_url q) = Some l
           \<and> projected parseISO l = Some data \<and> body = pipeline distance_km q data"
  using assms by (auto simp: handler_cases split: if_splits option.splits)


section \<open>Facts about the stages\<close>

subsection \<open>Comparisons with a value that is not a number\<close>

lemma js_lt_nan: "to_number v = NaN \<Longrightarrow> \<not> js_lt v (Numv n)"
  by (cases v) simp_all

lemma js_gt_nan: "to_number v = NaN \<Longrightarrow> \<not> js_gt v (Numv n)"
  by (cases v; cases n) (simp_all add: js_gt_def)

lemma js_le_nan: "to_number v = NaN \<Longrightarrow> \<not> js_le v (Numv n)"
  by (cases v) (simp_all add: js_le_def num_le_def num_eq_def)

lemma around_errors_distinct:
  "around_parse_error \<noteq> around_longitude_error"
  "around_parse_error \<noteq> around_latitude_error"
  "around_parse_error \<noteq> around_distance_error"
  by (simp_all add: around_parse_error_def around_longitude_error_def
      around_latitude_error_def around_distance_error_def)

lemma around_checks_nan:
  assumes "isNaN (elem_at a 0) \<or> isNaN (elem_at a 1) \<or> isNaN (elem_at a 2)"
  shows "count_list (around_checks a) around_parse_error = 1"
    and "isNaN (elem_at a 0) \<Longrightarrow> around_longitude_error \<notin> set (around_checks a)"
    and "isNaN (elem_at a 1) \<Longrightarrow> around_latitude_error \<notin> set (around_checks a)"
    and "isNaN (elem_at a 2) \<Longrightarrow> around_distance_error \<notin> set (around_checks a)"
proof -
  show "count_list (around_checks a) around_parse_error = 1"
    using assms by (auto simp: around_checks_def push_if_def around_errors_distinct)
  show "around_longitude_error \<notin> set (around_checks a)" if "isNaN (elem_at a 0)"
    using that
    by (auto simp: around_checks_def push_if_def isNaN_def js_le_nan js_gt_nan
        around_parse_error_def around_longitude_error_def around_latitude_error_def
        around_distance_error_def split: if_splits)
  show "around_latitude_error \<notin> set (around_checks a)" if "isNaN (elem_at a 1)"
    using that
    by (auto simp: around_checks_def push_if_def isNaN_def js_lt_nan js_gt_nan
        around_parse_error_def around_longitude_error_def around_latitude_error_def
        around_distance_error_def split: if_splits)
  show "around_distance_error \<notin> set (around_checks a)" if "isNaN (elem_at a 2)"
    using that
    by (auto simp: around_checks_def push_if_def isNaN_def js_lt_nan js_gt_nan
        around_parse_error_def around_longitude_error_def around_latitude_error_def
        around_distance_error_def split: if_splits)
qed

subsection \<open>A valid \<^verbatim>\<open>around\<close> has three pieces\<close>

lemma length_three: "length xs = 3 \<Longrightarrow> \<exists>a b c. xs = [a, b, c]"
  by (cases xs; cases "tl xs"; cases "tl (tl xs)") auto

lemma around_checks_empty_length: "around_checks a = [] \<Longrightarrow> length a = 3"
  by (auto simp: around_checks_def push_if_def split: if_splits)

lemma around_valid_three:
  assumes "truthy (q_around q)" and "around_errors q = []"
  shows "\<exists>lon lat rad. split_comma (the (q_around q)) = [lon, lat, rad]"
proof -
  have "length (around_numbers (the (q_around q))) = 3"
    using assms by (simp add: around_errors_def around_checks_empty_length)
  then have "length (split_comma (the (q_around q))) = 3"
    by (simp add: around_numbers_def)
  then show ?thesis by (rule length_three)
qed

subsection \<open>The \<^verbatim>\<open>distance\<close> key through the stages\<close>

lemma project_distance: "project parseISO obj = Some e \<Longrightarrow> distance e = None"
  by (auto simp: project_def split: option.splits)

lemma project_all_distance:
  "project_all parseISO objs = Some data \<Longrightarrow> \<forall>e \<in> set data. distance e = None"
  by (induction objs arbitrary: data) (auto split: option.splits dest: project_distance)

lemma projected_distance:
  "projected parseISO l = Some data \<Longrightarrow> \<forall>e \<in> set data. distance e = None"
  by (auto simp: projected_def split: option.splits dest: project_all_distance)

lemma set_country_filter: "set (country_filter q data) \<subseteq> set data"
  by (auto simp: country_filter_def Let_def)

lemma set_updated_after_filter: "set (updated_after_filter q data) \<subseteq> set data"
  by (auto simp: updated_after_filter_def)

lemma survivors_distance:
  assumes "projected parseISO l = Some data"
  shows "\<forall>e \<in> set (updated_after_filter q (country_filter q data)). distance e = None"
  using projected_distance [OF assms] set_country_filter [of q data]
    set_updated_after_filter [of q "country_filter q data"] by blast

lemma around_filter_absent: "\<not> truthy (q_around q) \<Longrightarrow> around_filter distance_km q data = data"
  by (simp add: around_filter_def)

lemma around_filter_distance:
  "truthy (q_around q) \<Longrightarrow> e \<in> set (around_filter distance_km q data) \<Longrightarrow> distance e \<noteq> None"
  by (auto simp: around_filter_def Let_def set_distance_def)


subsection \<open>The sort\<close>

lemma compareAscending_undefined: "compareAscending None None = 0"
  by (simp add: compareAscending_def strict_ne_def)

lemma insert_by_distance_undefined:
  "distance x = None \<Longrightarrow> \<forall>e \<in> set ys. distance e = None \<Longrightarrow> insert_by_distance x ys = x # ys"
  by (cases ys) (simp_all add: compareAscending_undefined)

lemma sortBy_distance_undefined:
  "\<forall>e \<in> set data. distance e = None \<Longrightarrow> sortBy_distance data = data"
  unfolding sortBy_distance_def
  by (induction data) (simp_all add: insert_by_distance_undefined)

lemma mset_insert_by_distance: "mset (insert_by_distance x ys) = add_mset x (mset ys)"
  by (induction ys) simp_all

lemma mset_sortBy_distance: "mset (sortBy_distance data) = mset data"
  unfolding sortBy_distance_def
  by (induction data) (simp_all add: mset_insert_by_distance)

lemma set_sortBy_distance: "set (sortBy_distance data) = set data"
  using mset_sortBy_distance [of data] by (metis set_mset_mset)

subsection \<open>The handler on the sample requests\<close>

lemma near_louvre_valid: "validate near_louvre = []"
  by (simp add: near_louvre_fields validate_eval number_eval)

lemma no_params_valid: "validate no_params = []"
  by (simp add: no_params_fields validate_eval)

lemma near_louvre_pipeline:
  "pipeline great_circle_km near_louvre [louvre_event, pergamon_event]
     = [louvre_event\<lparr>distance := Some (Fin 0)\<rparr>]"
  by (simp add: pipeline_eval near_louvre_fields sample_event_fields great_circle_same_point
      number_eval)

lemma near_louvre_response:
  "events_handler parseISO_utc great_circle_km sample_got near_louvre
     = Status200 [louvre_event\<lparr>distance := Some (Fin 0)\<rparr>]"
  by (simp add: handler_cases near_louvre_valid near_louvre_pipeline sample_listing(2)
      sample_got_no_org near_louvre_fields)

lemma no_params_response:
  "events_handler parseISO_utc great_circle_km sample_got no_params
     = Status200 [louvre_event, pergamon_event]"
  by (simp add: handler_cases sample_listing no_params_valid no_params_fields pipeline_eval
      sample_event_fields)

section \<open>Validation\<close>

lemma country_codes_fr_1_xyz:
  "country_code_errors ''FR'' @ country_code_errors ''1'' @ country_code_errors ''xyz'' =
     [country_letters_error ''1'', country_length_error ''1'',
      country_uppercase_error ''xyz'', country_length_error ''xyz'']"
  by (simp add: country_code_errors_def push_if_def toUpperCase_def upper_char_def
      has_letter_def is_lower_def is_upper_def)

text \<open>
  Claim C1 says that \<^verbatim>\<open>country=FR,1,xyz\<close>, with no other invalid parameter, yields
  exactly two errors, the length errors of \<open>1\<close> and \<open>xyz\<close>.  The handler tests the
  three rules of a code one after the other without stopping, so \<open>1\<close> also fails
  the letter test and \<open>xyz\<close> the upper-case test.  As amended: the request yields
  exactly four errors, in this order: letter presence and length for \<open>1\<close>, upper
  case and length for \<open>xyz\<close>; none for \<open>FR\<close>.
\<close>

theorem country_fr_1_xyz_errors:
  assumes "org_errors q = []" and "around_errors q = []" and "updated_at_errors q = []"
    and "q_country q = Some ''FR,1,xyz''"
  shows "validate q =
     [country_letters_error ''1'', country_length_error ''1'',
      country_uppercase_error ''xyz'', country_length_error ''xyz'']"
  using assms by (simp add: validate_def country_errors_def truthy_def country_codes_fr_1_xyz)

theorem country_fr_1_xyz_errors_witness:
  "org_errors fr_1_xyz = [] \<and> around_errors fr_1_xyz = [] \<and> updated_at_errors fr_1_xyz = []
   \<and> q_country fr_1_xyz = Some ''FR,1,xyz''
   \<and> validate fr_1_xyz =
       [country_letters_error ''1'', country_length_error ''1'',
        country_uppercase_error ''xyz'', country_length_error ''xyz'']"
  using country_fr_1_xyz_errors [of fr_1_xyz]
  by (simp add: fr_1_xyz_def no_params_def org_errors_def around_errors_def
      updated_at_errors_def truthy_def)

text \<open>The claim as it is written fails on that request: four errors, not two.\<close>

theorem country_fr_1_xyz_two_errors_counterexample:
  "validate fr_1_xyz \<noteq> [country_length_error ''1'', country_length_error ''xyz'']
   \<and> length (validate fr_1_xyz) = 4
   \<and> country_letters_error ''1'' \<in> set (validate fr_1_xyz)
   \<and> country_uppercase_error ''xyz'' \<in> set (validate fr_1_xyz)"
  by (simp add: fr_1_xyz_def no_params_def validate_def org_errors_def around_errors_def
      updated_at_errors_def country_errors_def truthy_def country_codes_fr_1_xyz)

text \<open>
  Claim C2 says that an \<^verbatim>\<open>around\<close> whose radius is not strictly greater than 0 is
  rejected with a 400 response, a radius of exactly 0 in particular.  The
  handler's message reads \<open>Distance must be greater than 0\<close>, but its test is
  \<^verbatim>\<open>around[2] < 0\<close>: the request \<^verbatim>\<open>around=0,0,0\<close> passes validation with no error
  at all, and whatever the storage service answers, the response is not a 400.
\<close>

theorem around_radius_zero_accepted:
  "validate around_0_0_0 = []
   \<and> (\<forall>errs. events_handler parseISO distance_km got around_0_0_0 \<noteq> Status400 errs)"
proof -
  have "validate around_0_0_0 = []"
    by (simp add: around_0_0_0_def no_params_def validate_eval number_eval)
  then show ?thesis
    by (simp add: handler_cases split: option.splits)
qed

text \<open>
  Claim C4: when one of the first three pieces of \<^verbatim>\<open>around\<close> is not a number (or
  is missing), the parse error is emitted exactly once, and the range check of
  each position that is not a number emits nothing, since every comparison with
  \<open>NaN\<close> is false.
\<close>

theorem around_nan_single_parse_error:
  assumes "truthy (q_around q)"
    and "isNaN (elem_at (around_numbers (the (q_around q))) 0)
       \<or> isNaN (elem_at (around_numbers (the (q_around q))) 1)
       \<or> isNaN (elem_at (around_numbers (the (q_around q))) 2)"
  shows "count_list (around_errors q) around_parse_error = 1
       \<and> (isNaN (elem_at (around_numbers (the (q_around q))) 0)
            \<longrightarrow> around_longitude_error \<notin> set (around_errors q))
       \<and> (isNaN (elem_at (around_numbers (the (q_around q))) 1)
            \<longrightarrow> around_latitude_error \<notin> set (around_errors q))
       \<and> (isNaN (elem_at (around_numbers (the (q_around q))) 2)
            \<longrightarrow> around_distance_error \<notin> set (around_errors q))"
  using assms(1) around_checks_nan [OF assms(2)] by (simp add: around_errors_def)

text \<open>
  On \<^verbatim>\<open>around=200,abc,-1\<close> the latitude is not a number: one parse error, no
  latitude error, and the two numeric positions are still range-checked.
\<close>

theorem around_nan_single_parse_error_witness:
  "truthy (q_around around_200_abc)
   \<and> isNaN (elem_at (around_numbers (the (q_around around_200_abc))) 1)
   \<and> count_list (around_errors around_200_abc) around_parse_error = 1
   \<and> around_latitude_error \<notin> set (around_errors around_200_abc)
   \<and> around_errors around_200_abc
        = [around_parse_error, around_longitude_error, around_distance_error]"
  using around_nan_single_parse_error [of around_200_abc]
  by (simp add: around_200_abc_def no_params_def validate_eval number_eval)

text \<open>
  Validation does not stop at the first error: whatever the blocks of \<^verbatim>\<open>around\<close>
  and \<^verbatim>\<open>country\<close> push ends up, in that order, in the one 400 response.
\<close>

lemma pushed_errors_collected:
  assumes "around_errors q \<noteq> [] \<or> country_errors q \<noteq> []"
  shows "events_handler parseISO distance_km got q
           = Status400 (org_errors q @ around_errors q @ country_errors q @ updated_at_errors q)"
  using assms by (auto simp: handler_cases validate_def)

text \<open>
  The block of \<^verbatim>\<open>around\<close> pushes an error for every value that breaks the
  specification's invariant, except a radius of exactly 0.
\<close>

lemma around_invalid_flagged:
  assumes "truthy (q_around q)" and "\<not> spec_around_valid (the (q_around q))"
    and "elem_at (around_numbers (the (q_around q))) 2 \<noteq> Numv (Fin 0)"
  shows "around_errors q \<noteq> []"
proof (rule ccontr)
  assume "\<not> around_errors q \<noteq> []"
  then have e: "around_checks (around_numbers (the (q_around q))) = []"
    using assms(1) by (simp add: around_errors_def)
  obtain lon lat rad where s: "split_comma (the (q_around q)) = [lon, lat, rad]"
    using around_valid_three [OF assms(1)] \<open>\<not> around_errors q \<noteq> []\<close> by blast
  from e s assms(3) have "spec_around_valid (the (q_around q))"
    by (cases "Number lon"; cases "Number lat"; cases "Number rad")
       (auto simp: spec_around_valid_def around_checks_def around_numbers_def push_if_def
          isNaN_def elem_at_def js_le_def js_gt_def num_le_def num_eq_def split: if_splits)
  with assms(2) show False by simp
qed

text \<open>
  Claim C5 says that a request whose \<^verbatim>\<open>around\<close> and \<^verbatim>\<open>country\<close> are both invalid
  is answered by one 400 response that holds the errors of both.  A radius of 0
  breaks the invariant of \<^verbatim>\<open>around\<close>, and the handler's message asks for a
  radius greater than 0, but its test \<^verbatim>\<open>around[2] < 0\<close> lets 0 pass: on
  \<^verbatim>\<open>around=0,0,0&country=fr\<close> the block of \<^verbatim>\<open>around\<close> pushes nothing and the 400
  response holds the error of \<^verbatim>\<open>country\<close> alone.
\<close>

theorem around_radius_zero_not_collected:
  "\<not> spec_around_valid ''0,0,0''
   \<and> q_around around_0_0_0_country_fr = Some ''0,0,0''
   \<and> q_country around_0_0_0_country_fr = Some ''fr''
   \<and> around_errors around_0_0_0_country_fr = []
   \<and> country_errors around_0_0_0_country_fr = [country_uppercase_error ''fr'']
   \<and> events_handler parseISO distance_km got around_0_0_0_country_fr
        = Status400 [country_uppercase_error ''fr'']"
proof -
  have "\<not> spec_around_valid ''0,0,0''"
    by (simp add: spec_around_valid_def number_eval)
  moreover have "validate around_0_0_0_country_fr = [country_uppercase_error ''fr'']"
    by (simp add: around_0_0_0_country_fr_def no_params_def validate_eval number_eval)
  moreover have "around_errors around_0_0_0_country_fr = []"
    "country_errors around_0_0_0_country_fr = [country_uppercase_error ''fr'']"
    by (simp_all add: around_0_0_0_country_fr_def no_params_def validate_eval number_eval)
  ultimately show ?thesis
    by (simp add: handler_cases around_0_0_0_country_fr_def no_params_def)
qed

section \<open>Projection\<close>

text \<open>
  Claim C3 says that \<^verbatim>\<open>created_at\<close> and \<^verbatim>\<open>updated_at\<close> are the epoch time in seconds
  of the two timestamps.  The handler stores \<^verbatim>\<open>getTime(parseISO(...))\<close>, and
  \<^verbatim>\<open>getTime\<close> returns the time value of the date, which counts milliseconds.  As
  amended: for every raw object the projection succeeds on, \<^verbatim>\<open>created_at\<close> and
  \<^verbatim>\<open>updated_at\<close> equal the epoch time in milliseconds of \<^verbatim>\<open>timeCreated\<close> and
  \<^verbatim>\<open>updated\<close> (\<open>NaN\<close> for a timestamp that does not parse).
\<close>

theorem project_timestamps_are_milliseconds:
  assumes "project parseISO obj = Some e"
  shows "created_at e = getTime (parseISO (timeCreated obj))
       \<and> updated_at e = getTime (parseISO (updated obj))"
  using assms by (auto simp: project_def split: option.splits)

theorem project_timestamps_are_milliseconds_witness:
  "project parseISO_utc louvre = Some louvre_event
   \<and> created_at louvre_event = getTime (Date 1609459200000)
   \<and> updated_at louvre_event = getTime (Date 1622548800000)"
  using project_timestamps_are_milliseconds [OF project_louvre]
  by (simp add: project_louvre louvre_times)

text \<open>
  An object created at 2021-01-01T00:00:00.000Z, 1609459200 seconds after the
  epoch, is projected with \<^verbatim>\<open>created_at\<close> 1609459200000.
\<close>

theorem project_timestamps_seconds_counterexample:
  "created_at (the (project parseISO_utc louvre)) = Fin 1609459200000
   \<and> spec_epoch_seconds (parseISO_utc (timeCreated louvre)) = Fin 1609459200
   \<and> created_at (the (project parseISO_utc louvre))
        \<noteq> spec_epoch_seconds (parseISO_utc (timeCreated louvre))"
  by (simp add: project_louvre louvre_event_def spec_epoch_seconds_def louvre_times)

section \<open>Filters and ranking\<close>

text \<open>
  Claim C6: when \<^verbatim>\<open>updated_after\<close> is given with a numeric value \<open>t\<close>, the recency
  filter keeps exactly the events whose \<^verbatim>\<open>updated_at\<close> is strictly greater than
  \<open>t\<close> as numbers, in their order.  \<^verbatim>\<open>updated_at\<close> is a number, so the operator
  \<^verbatim>\<open>>\<close> converts the parameter to a number and does not compare strings.
\<close>

theorem updated_after_numeric_strict:
  assumes "q_updated_after q = Some s" and "s \<noteq> []" and "Number s = t" and "t \<noteq> NaN"
  shows "updated_after_filter q data = filter (\<lambda>e. num_lt t (updated_at e)) data"
  using assms by (simp add: updated_after_filter_def truthy_def js_gt_def)

text \<open>
  With \<^verbatim>\<open>updated_after=1000\<close>, the events updated at 999 and 1000 are dropped and
  those at 1001 and 2000 are kept, although the string \<open>1000\<close> sorts before \<open>999\<close>.
\<close>

theorem updated_after_numeric_strict_witness:
  "q_updated_after after_1000 = Some ''1000'' \<and> Number ''1000'' = Fin 1000
   \<and> updated_after_filter after_1000
        [updated_ms 999, updated_ms 1001, updated_ms 1000, updated_ms 2000]
       = [updated_ms 1001, updated_ms 2000]
   \<and> str_lt ''1000'' ''999''"
  using updated_after_numeric_strict [of after_1000 "''1000''" "Fin 1000"
      "[updated_ms 999, updated_ms 1001, updated_ms 1000, updated_ms 2000]"]
  by (simp add: after_1000_def no_params_def number_eval updated_ms_def)



text \<open>
  Claim C8: without \<^verbatim>\<open>around\<close>, the response holds the projected listing after
  the country and recency filters, in the order of the listing: no event has a
  \<^verbatim>\<open>distance\<close>, and the sort leaves such a list as it is.
\<close>

theorem no_around_keeps_listing_order:
  assumes "\<not> truthy (q_around q)" and "validate q = []"
    and "got (listing_url q) = Some l" and "projected parseISO l = Some data"
  shows "events_handler parseISO distance_km got q
           = Status200 (updated_after_filter q (country_filter q data))
       \<and> subseq (updated_after_filter q (country_filter q data)) data"
proof -
  let ?kept = "updated_after_filter q (country_filter q data)"
  have "pipeline distance_km q data = ?kept"
    using assms(1) survivors_distance [OF assms(4), of q]
    by (simp add: pipeline_def around_filter_absent sortBy_distance_undefined)
  then have "events_handler parseISO distance_km got q = Status200 ?kept"
    using assms by (simp add: handler_cases)
  moreover have "subseq ?kept (country_filter q data)"
    by (simp add: updated_after_filter_def)
  moreover have "subseq (country_filter q data) data"
    by (simp add: country_filter_def Let_def)
  ultimately show ?thesis
    using subseq_order.trans by blast
qed

theorem no_around_keeps_listing_order_witness:
  "\<not> truthy (q_around country_fr_de) \<and> validate country_fr_de = []
   \<and> sample_got (listing_url country_fr_de) = Some \<lparr>items = Some [louvre, pergamon]\<rparr>
   \<and> projected parseISO_utc \<lparr>items = Some [louvre, pergamon]\<rparr>
        = Some [louvre_event, pergamon_event]
   \<and> events_handler parseISO_utc great_circle_km sample_got country_fr_de
        = Status200 [louvre_event, pergamon_event]"
proof -
  have t: "\<not> truthy (q_around country_fr_de)"
    by (simp add: country_fr_de_fields truthy_def)
  have v: "validate country_fr_de = []"
    by (simp add: country_fr_de_fields validate_eval)
  have g: "sample_got (listing_url country_fr_de) = Some \<lparr>items = Some [louvre, pergamon]\<rparr>"
    by (simp add: sample_got_no_org country_fr_de_fields)
  have kept: "updated_after_filter country_fr_de
                (country_filter country_fr_de [louvre_event, pergamon_event])
              = [louvre_event, pergamon_event]"
    by (simp add: pipeline_eval country_fr_de_fields sample_event_fields)
  show ?thesis
    using no_around_keeps_listing_order
      [of country_fr_de sample_got "\<lparr>items = Some [louvre, pergamon]\<rparr>" parseISO_utc
        "[louvre_event, pergamon_event]" great_circle_km]
      t v g sample_listing(2) kept
    by simp
qed

text \<open>
  Claim C9: in a 200 response, an event carries \<^verbatim>\<open>distance\<close> if and only if the
  proximity filter ran, that is, \<^verbatim>\<open>around\<close> was given with a value (the handler's
  test \<^verbatim>\<open>if (req.query.around)\<close>).  The projection creates every event without
  the key, and neither the other filters nor the sort touch it.
\<close>

theorem distance_iff_around:
  assumes "events_handler parseISO distance_km got q = Status200 body" and "e \<in> set body"
  shows "(distance e \<noteq> None) = truthy (q_around q)"
proof -
  obtain l data where v: "projected parseISO l = Some data"
    and b: "body = pipeline distance_km q data"
    using handler_200 [OF assms(1)] by blast
  let ?kept = "updated_after_filter q (country_filter q data)"
  have mem: "e \<in> set (around_filter distance_km q ?kept)"
    using assms(2) b by (simp add: pipeline_def set_sortBy_distance)
  show ?thesis
  proof (cases "truthy (q_around q)")
    case True
    then show ?thesis using around_filter_distance [OF True mem] by simp
  next
    case False
    then show ?thesis
      using mem survivors_distance [OF v, of q] by (simp add: around_filter_absent)
  qed
qed

theorem distance_iff_around_witness:
  "events_handler parseISO_utc great_circle_km sample_got near_louvre
        = Status200 [louvre_event\<lparr>distance := Some (Fin 0)\<rparr>]
   \<and> distance (louvre_event\<lparr>distance := Some (Fin 0)\<rparr>) \<noteq> None
   \<and> truthy (q_around near_louvre)
   \<and> events_handler parseISO_utc great_circle_km sample_got no_params
        = Status200 [louvre_event, pergamon_event]
   \<and> distance pergamon_event = None
   \<and> \<not> truthy (q_around no_params)"
  using distance_iff_around [OF near_louvre_response, of "louvre_event\<lparr>distance := Some (Fin 0)\<rparr>"]
    distance_iff_around [OF no_params_response, of pergamon_event]
    near_louvre_response no_params_response
  by (simp add: sample_event_fields)

text \<open>
  Claim C10: \<^verbatim>\<open>updated_after\<close> is not validated.  Validation does not read it;
  a request that passes validation and carries an \<^verbatim>\<open>updated_after\<close> that is not a
  number is never answered with 400, and when the listing and the projection
  succeed the response is 200 with an empty array, since no event compares
  greater than \<open>NaN\<close>.
\<close>

theorem updated_after_not_validated:
  assumes "validate q = []" and "q_updated_after q = Some s" and "s \<noteq> []"
    and "Number s = NaN"
  shows "validate (q\<lparr>q_updated_after := v\<rparr>) = validate q
       \<and> (\<forall>errs. events_handler parseISO distance_km got q \<noteq> Status400 errs)
       \<and> (\<forall>l data. got (listing_url q) = Some l \<longrightarrow> projected parseISO l = Some data
             \<longrightarrow> events_handler parseISO distance_km got q = Status200 [])"
proof -
  have v: "validate (q\<lparr>q_updated_after := v\<rparr>) = validate q"
    by (simp add: validate_def org_errors_def around_errors_def country_errors_def
        updated_at_errors_def)
  have "updated_after_filter q data = []" for data
    using assms by (simp add: updated_after_filter_def truthy_def js_gt_def)
  then have "pipeline distance_km q data = []" for data
    by (simp add: pipeline_def around_filter_def sortBy_distance_def)
  then show ?thesis
    using assms(1) v by (auto simp: handler_cases split: option.splits)
qed

theorem updated_after_not_validated_witness:
  "validate after_abc = [] \<and> q_updated_after after_abc = Some ''abc'' \<and> Number ''abc'' = NaN
   \<and> sample_got (listing_url after_abc) = Some \<lparr>items = Some [louvre, pergamon]\<rparr>
   \<and> projected parseISO_utc \<lparr>items = Some [louvre, pergamon]\<rparr>
        = Some [louvre_event, pergamon_event]
   \<and> events_handler parseISO_utc great_circle_km sample_got after_abc = Status200 []"
  using updated_after_not_validated
      [of after_abc "''abc''" None parseISO_utc great_circle_km sample_got]
    sample_listing
  by (simp add: after_abc_def no_params_def validate_eval number_eval listing_url_def)

end
